theory Spec2Isabelle
  imports Main "HOL-Library.AList"
begin

section \<open>Data model of the validation script\<close>

text \<open>
  The script talks to three things it does not define itself: the warehouse session
  (\<^verbatim>\<open>session.sql(...).collect()\<close> and \<^verbatim>\<open>session.create_dataframe\<close>), and the
  standard \<^verbatim>\<open>json\<close> module. They are parameters of the model. Every call that can
  raise returns a sum, \<open>Inl\<close> carrying the text of the exception (\<^verbatim>\<open>str(e)\<close>).
  The \<^verbatim>\<open>print\<close> calls write to standard output only and are left out: no value the
  script returns depends on them.
\<close>

type_synonym exn = string

text \<open>Python values that \<^verbatim>\<open>json.loads\<close> can return and \<^verbatim>\<open>json.dumps\<close> accepts. A
  \<^verbatim>\<open>dict\<close> keeps insertion order, so it is an association list.\<close>

datatype json =
    JNull
  | JBool bool
  | JInt int
  | JFloat string
  | JStr string
  | JArr "json list"
  | JObj "(string \<times> json) list"

text \<open>Outcome of \<^verbatim>\<open>json.loads\<close>: the parsed value, a \<^verbatim>\<open>JSONDecodeError\<close>, or any other
  exception.\<close>

datatype loads_result = Loaded json | JSONDecodeError exn | LoadsRaised exn

record json_lib =
  json_loads :: "string \<Rightarrow> loads_result"
  json_dumps :: "json \<Rightarrow> string"

text \<open>A cell of a result tuple handed to \<^verbatim>\<open>create_dataframe\<close>.\<close>

datatype pyval = PNone | PStr string | PInt int

datatype field_type = StringType | LongType | VariantType

type_synonym schema = "(string \<times> field_type) list"

record dataframe =
  df_schema :: schema
  df_rows :: "pyval list list"

text \<open>
  The session. The script issues two kinds of statement: \<^verbatim>\<open>SELECT COUNT(*) ...\<close>, whose
  rows hold integer cells, and the \<^verbatim>\<open>TO_JSON\<close> statement, whose rows hold the single
  column \<^verbatim>\<open>RECORD_JSON\<close> (a string, or \<open>None\<close> for SQL NULL). \<open>sql_count\<close> and
  \<open>sql_json\<close> are \<^verbatim>\<open>session.sql(q).collect()\<close> for these two kinds; \<open>df_error\<close> says
  whether \<^verbatim>\<open>session.create_dataframe(data, schema)\<close> raises.
\<close>

record session =
  sql_count :: "string \<Rightarrow> exn + int list list"
  sql_json :: "string \<Rightarrow> exn + string option list"
  df_error :: "pyval list list \<Rightarrow> schema \<Rightarrow> exn option"

text \<open>A configuration dictionary; \<open>None\<close> is an absent key.\<close>

record config =
  source_table :: "string option"
  hub_table :: "string option"
  cur_satellite_table :: "string option"
  bizview_table :: "string option"
  source_key :: "string option"
  hub_key :: "string option"
  satellite_hash_key :: "string option"
  bizview_key :: "string option"
  deleted_column :: "string option"
  columns_to_compare :: "string list option"
  custom_except_query :: "string option"

section \<open>Python primitives used by the script\<close>

definition nl :: string where
  "nl = [CHR 0x0A]"

definition sq :: string where
  "sq = [CHR 0x27]"

text \<open>\<^verbatim>\<open>d.get(k, default)\<close>\<close>

definition get_default :: "'a option \<Rightarrow> 'a \<Rightarrow> 'a" where
  "get_default v d = (case v of None \<Rightarrow> d | Some x \<Rightarrow> x)"

text \<open>Truth value of \<^verbatim>\<open>d.get(k)\<close> for a string entry: absent and empty are false.\<close>

definition truthy :: "string option \<Rightarrow> bool" where
  "truthy v = (case v of None \<Rightarrow> False | Some x \<Rightarrow> x \<noteq> [])"

text \<open>\<^verbatim>\<open>str(n)\<close> for an integer.\<close>

definition digit_char :: "nat \<Rightarrow> char" where
  "digit_char d = ''0123456789'' ! d"

fun str_nat :: "nat \<Rightarrow> string" where
  "str_nat n = (if n < 10 then [digit_char n] else str_nat (n div 10) @ [digit_char (n mod 10)])"

declare str_nat.simps [simp del]

definition str_int :: "int \<Rightarrow> string" where
  "str_int i = (if i < 0 then CHR ''-'' # str_nat (nat (- i)) else str_nat (nat i))"

text \<open>How an f-string renders \<^verbatim>\<open>config.get(k)\<close>.\<close>

definition str_opt :: "string option \<Rightarrow> string" where
  "str_opt v = (case v of None \<Rightarrow> ''None'' | Some x \<Rightarrow> x)"

text \<open>\<^verbatim>\<open>s.split(c)\<close> for a one-character separator; the result is never empty.\<close>

fun split_on :: "char \<Rightarrow> string \<Rightarrow> string list" where
  "split_on c [] = [[]]"
| "split_on c (x # xs) =
     (if x = c then [] # split_on c xs
      else (case split_on c xs of [] \<Rightarrow> [[x]] | w # ws \<Rightarrow> (x # w) # ws))"

text \<open>\<^verbatim>\<open>rows[0][0]\<close> on the collected rows of a count statement.\<close>

definition first_cell :: "exn + int list list \<Rightarrow> exn + int" where
  "first_cell r =
     (case r of
        Inl e \<Rightarrow> Inl e
      | Inr rows \<Rightarrow>
          (case rows of
             [] \<Rightarrow> Inl ''list index out of range''
           | row # _ \<Rightarrow>
               (case row of
                  [] \<Rightarrow> Inl ''tuple index out of range''
                | v # _ \<Rightarrow> Inr v)))"

text \<open>\<^verbatim>\<open>d[k] = v\<close>: a \<^verbatim>\<open>dict\<close> replaces the entry in place or appends it; everything
  else \<^verbatim>\<open>json.loads\<close> can return raises \<^verbatim>\<open>TypeError\<close>.\<close>

definition no_item_assignment :: "string \<Rightarrow> exn" where
  "no_item_assignment ty = sq @ ty @ sq @ '' object does not support item assignment''"

fun set_item :: "json \<Rightarrow> string \<Rightarrow> json \<Rightarrow> exn + json" where
  "set_item (JObj d) k v = Inr (JObj (AList.update k v d))"
| "set_item (JArr xs) k v = Inl ''list indices must be integers or slices, not str''"
| "set_item JNull k v = Inl (no_item_assignment ''NoneType'')"
| "set_item (JBool b) k v = Inl (no_item_assignment ''bool'')"
| "set_item (JInt i) k v = Inl (no_item_assignment ''int'')"
| "set_item (JFloat f) k v = Inl (no_item_assignment ''float'')"
| "set_item (JStr s) k v = Inl (no_item_assignment ''str'')"

section \<open>extract_missing_records\<close>

text \<open>The four table names the function reads from the configuration, with its
  defaults.\<close>

record table_names =
  tn_source :: string
  tn_hub :: string
  tn_satellite :: string
  tn_bizview :: string

definition table_names_of :: "config \<Rightarrow> table_names" where
  "table_names_of cfg =
     \<lparr> tn_source = get_default (source_table cfg) ''UNKNOWN_SOURCE'',
       tn_hub = get_default (hub_table cfg) ''UNKNOWN_HUB'',
       tn_satellite = get_default (cur_satellite_table cfg) ''UNKNOWN_SATELLITE'',
       tn_bizview = get_default (bizview_table cfg) ''UNKNOWN_BIZVIEW'' \<rparr>"

definition table_entries :: "table_names \<Rightarrow> (string \<times> json) list" where
  "table_entries t =
     [(''source_table'', JStr (tn_source t)),
      (''hub_table'', JStr (tn_hub t)),
      (''satellite_table'', JStr (tn_satellite t)),
      (''bizview_table'', JStr (tn_bizview t))]"

text \<open>The \<^verbatim>\<open>__metadata\<close> of a parsed record, and of an error entry.\<close>

definition missing_metadata :: "table_names \<Rightarrow> json" where
  "missing_metadata t = JObj (table_entries t @ [(''record_type'', JStr ''missing'')])"

definition error_metadata :: "table_names \<Rightarrow> json" where
  "error_metadata t = JObj (table_entries t)"

definition parse_error_record :: "table_names \<Rightarrow> exn \<Rightarrow> json" where
  "parse_error_record t e =
     JObj [(''error'', JStr (''Failed to parse JSON: '' @ e)),
           (''__metadata'', error_metadata t),
           (''__record_separator'', JBool True)]"

definition empty_result_record :: "table_names \<Rightarrow> json" where
  "empty_result_record t =
     JObj [(''error'', JStr ''Empty JSON result''),
           (''__metadata'', error_metadata t),
           (''__record_separator'', JBool True)]"

definition json_error_record :: "table_names \<Rightarrow> exn \<Rightarrow> json" where
  "json_error_record t e =
     JObj [(''error'', JStr (''JSON processing error: '' @ e)),
           (''__metadata'', error_metadata t)]"

definition note_record :: "table_names \<Rightarrow> int \<Rightarrow> int \<Rightarrow> json" where
  "note_record t limit missing_count =
     JObj ((''NOTE'', JStr (''Showing '' @ str_int limit @ '' of '' @ str_int missing_count
                              @ '' total missing records''))
           # table_entries t)"

definition count_query :: "string \<Rightarrow> string" where
  "count_query q = ''SELECT COUNT(*) FROM ('' @ q @ '')''"

definition json_query :: "string \<Rightarrow> int \<Rightarrow> string" where
  "json_query q limit =
     nl @ ''            WITH missing_records AS ('' @ nl
        @ ''                '' @ q @ nl
        @ ''                LIMIT '' @ str_int limit @ nl
        @ ''            )'' @ nl
        @ ''            SELECT '' @ nl
        @ ''                TO_JSON(OBJECT_CONSTRUCT(*)) AS RECORD_JSON'' @ nl
        @ ''            FROM missing_records'' @ nl
        @ ''            ''"

text \<open>The body of the loop over the collected rows, for one parsed value: the two item
  assignments.\<close>

definition tag_record :: "table_names \<Rightarrow> json \<Rightarrow> exn + json" where
  "tag_record t record_dict =
     (case set_item record_dict ''__metadata'' (missing_metadata t) of
        Inl e \<Rightarrow> Inl e
      | Inr d1 \<Rightarrow> set_item d1 ''__record_separator'' (JBool True))"

text \<open>The body of the loop over the collected rows: the dictionary appended for one
  row, or the exception that leaves the loop. A \<^verbatim>\<open>JSONDecodeError\<close> is caught inside
  the body and becomes an error entry.\<close>

definition row_record :: "json_lib \<Rightarrow> table_names \<Rightarrow> string option \<Rightarrow> exn + json" where
  "row_record L t row =
     (if truthy row then
        (case json_loads L (the row) of
           Loaded record_dict \<Rightarrow> tag_record t record_dict
         | JSONDecodeError json_err \<Rightarrow> Inr (parse_error_record t json_err)
         | LoadsRaised e \<Rightarrow> Inl e)
      else Inr (empty_result_record t))"

fun process_rows ::
  "json_lib \<Rightarrow> table_names \<Rightarrow> string option list \<Rightarrow> json list \<Rightarrow> exn + json list" where
  "process_rows L t [] missing_records = Inr missing_records"
| "process_rows L t (row # rows) missing_records =
     (case row_record L t row of
        Inl e \<Rightarrow> Inl e
      | Inr d \<Rightarrow> process_rows L t rows (missing_records @ [d]))"

text \<open>
  The function itself. Of its three nested handlers only the innermost can be reached:
  between the \<^verbatim>\<open>try\<close> lines and the two session calls the code only reads the
  configuration and builds strings, so the handlers for \<^verbatim>\<open>query_error\<close> and for the
  outermost \<^verbatim>\<open>e\<close> have nothing to catch.
\<close>

definition extract_missing_records ::
  "json_lib \<Rightarrow> session \<Rightarrow> config \<Rightarrow> int \<Rightarrow> int \<times> json list" where
  "extract_missing_records L s cfg limit =
     (if \<not> truthy (custom_except_query cfg) then (0, [])
      else
        let t = table_names_of cfg;
            q = the (custom_except_query cfg);
            missing_count =
              (case first_cell (sql_count s (count_query q)) of
                 Inl count_error \<Rightarrow> 0
               | Inr n \<Rightarrow> n)
        in (case sql_json s (json_query q limit) of
              Inl json_error \<Rightarrow> (missing_count, [json_error_record t json_error])
            | Inr rows \<Rightarrow>
                (case process_rows L t rows [] of
                   Inl json_error \<Rightarrow> (missing_count, [json_error_record t json_error])
                 | Inr missing_records \<Rightarrow>
                     (missing_count,
                      if missing_count > limit
                      then missing_records @ [note_record t limit missing_count]
                      else missing_records))))"

section \<open>main\<close>

definition result_schema :: schema where
  "result_schema =
     [(''TABLE_NAME'', StringType),
      (''SOURCE_TABLE'', StringType),
      (''HUB_TABLE'', StringType),
      (''SATELLITE_TABLE'', StringType),
      (''BIZVIEW_TABLE'', StringType),
      (''SOURCE_COUNT'', LongType),
      (''HUB_COUNT'', LongType),
      (''LINK_COUNT'', LongType),
      (''CURRENT_SATELLITE_COUNT'', LongType),
      (''BIZVIEW_COUNT'', LongType),
      (''SOURCE_TO_HUB_LOSS'', LongType),
      (''HUB_TO_LINK_LOSS'', LongType),
      (''HUB_TO_SAT_LOSS'', LongType),
      (''LINK_TO_SAT_LOSS'', LongType),
      (''SAT_TO_BIZVIEW_LOSS'', LongType),
      (''TOTAL_ROWS_LOST'', LongType),
      (''DELETED_RECORDS'', LongType),
      (''LOST_RECORDS_DETAILS'', VariantType)]"

text \<open>\<^verbatim>\<open>session.create_dataframe(data, schema=schema)\<close>: the frame holds the given rows
  under the given schema, unless the call raises.\<close>

definition create_dataframe :: "session \<Rightarrow> pyval list list \<Rightarrow> schema \<Rightarrow> exn + dataframe" where
  "create_dataframe s data sch =
     (case df_error s data sch of
        Some e \<Rightarrow> Inl e
      | None \<Rightarrow> Inr \<lparr> df_schema = sch, df_rows = data \<rparr>)"

text \<open>The value stored under \<^verbatim>\<open>lost_records[table_name]\<close>: a dictionary literal with
  seven fixed keys, kept as a record and turned into the dictionary by \<open>lost_json\<close>
  when it is serialised.\<close>

record lost =
  lost_source_to_hub :: "json list"
  lost_missing_count :: int
  lost_hub_to_satellite :: "json list"
  lost_hub_to_link :: "json list"
  lost_link_to_satellite :: "json list"
  lost_satellite_to_bizview :: "json list"
  lost_deleted :: int

definition lost_json :: "lost \<Rightarrow> json" where
  "lost_json e =
     JObj [(''source_to_hub'', JArr (lost_source_to_hub e)),
           (''missing_count'', JInt (lost_missing_count e)),
           (''hub_to_satellite'', JArr (lost_hub_to_satellite e)),
           (''hub_to_link'', JArr (lost_hub_to_link e)),
           (''link_to_satellite'', JArr (lost_link_to_satellite e)),
           (''satellite_to_bizview'', JArr (lost_satellite_to_bizview e)),
           (''deleted'', JInt (lost_deleted e))]"

text \<open>\<^verbatim>\<open>lost_records[k]\<close>; a missing key raises \<^verbatim>\<open>KeyError\<close>, whose text is the key.\<close>

definition lookup_lost :: "(string \<times> lost) list \<Rightarrow> pyval \<Rightarrow> exn + lost" where
  "lookup_lost lost_records k =
     (case k of
        PStr name \<Rightarrow>
          (case map_of lost_records name of
             None \<Rightarrow> Inl (sq @ name @ sq)
           | Some e \<Rightarrow> Inr e)
      | PNone \<Rightarrow> Inl ''None''
      | PInt i \<Rightarrow> Inl (str_int i))"

definition opt_str :: "string option \<Rightarrow> pyval" where
  "opt_str v = (case v of None \<Rightarrow> PNone | Some x \<Rightarrow> PStr x)"

definition source_count_query :: "config \<Rightarrow> string" where
  "source_count_query cfg = ''SELECT COUNT(*) FROM '' @ str_opt (source_table cfg)"

definition non_deleted_query :: "config \<Rightarrow> string \<Rightarrow> string" where
  "non_deleted_query cfg deleted_col =
     ''SELECT COUNT(*) FROM '' @ str_opt (source_table cfg) @ '' WHERE '' @ deleted_col
       @ '' = FALSE''"

text \<open>\<^verbatim>\<open>config.get('source_table', '').split('.')[-1]\<close>; the split is never empty, so
  its last element exists.\<close>

definition table_name_of :: "config \<Rightarrow> string" where
  "table_name_of cfg = last (split_on (CHR ''.'') (get_default (source_table cfg) []))"

text \<open>Count source records: a failing statement counts as 0.\<close>

definition source_count_of :: "session \<Rightarrow> config \<Rightarrow> int" where
  "source_count_of s cfg =
     (case first_cell (sql_count s (source_count_query cfg)) of
        Inl e \<Rightarrow> 0
      | Inr n \<Rightarrow> n)"

text \<open>Count non-deleted records: the pair \<open>(non_deleted_count, deleted_count)\<close>.\<close>

definition deleted_counts :: "session \<Rightarrow> config \<Rightarrow> int \<times> int" where
  "deleted_counts s cfg =
     (let source_count = source_count_of s cfg
      in (case deleted_column cfg of
            None \<Rightarrow> (source_count, 0)
          | Some deleted_col \<Rightarrow>
              (case first_cell (sql_count s (non_deleted_query cfg deleted_col)) of
                 Inl e \<Rightarrow> (source_count, 0)
               | Inr non_deleted_count \<Rightarrow>
                   (non_deleted_count, source_count - non_deleted_count))))"

text \<open>The dictionary stored under \<^verbatim>\<open>lost_records[table_name]\<close>.\<close>

definition lost_entry :: "json_lib \<Rightarrow> session \<Rightarrow> config \<Rightarrow> lost" where
  "lost_entry L s cfg =
     (let extracted = extract_missing_records L s cfg 10;
          source_hub_loss = fst extracted;
          missing_records = snd extracted;
          deleted_count = snd (deleted_counts s cfg)
      in \<lparr> lost_source_to_hub = missing_records,
           lost_missing_count = source_hub_loss,
           lost_hub_to_satellite = [],
           lost_hub_to_link = [],
           lost_link_to_satellite = [],
           lost_satellite_to_bizview = [],
           lost_deleted = deleted_count \<rparr>)"

text \<open>The tuple appended to \<^verbatim>\<open>results\<close>; \<open>entry\<close> is what
  \<^verbatim>\<open>lost_records[table_name]\<close> returned.\<close>

definition result_tuple :: "json_lib \<Rightarrow> session \<Rightarrow> config \<Rightarrow> lost \<Rightarrow> pyval list" where
  "result_tuple L s cfg entry =
     (let table_name = table_name_of cfg;
          hub_tbl = get_default (hub_table cfg) [];
          satellite_tbl = get_default (cur_satellite_table cfg) [];
          bizview_tbl = get_default (bizview_table cfg) [];
          non_deleted_count = fst (deleted_counts s cfg);
          deleted_count = snd (deleted_counts s cfg);
          source_hub_loss = fst (extract_missing_records L s cfg 10);
          hub_count = non_deleted_count - source_hub_loss;
          hub_to_link_loss = 0;
          hub_to_sat_loss = 0;
          link_to_sat_loss = 0;
          sat_to_bizview_loss = 0;
          total_rows_lost =
            source_hub_loss + hub_to_link_loss + hub_to_sat_loss + link_to_sat_loss
              + sat_to_bizview_loss
      in [PStr table_name,
          opt_str (source_table cfg),
          PStr hub_tbl,
          PStr satellite_tbl,
          PStr bizview_tbl,
          PInt non_deleted_count,
          PInt hub_count,
          PInt hub_count,
          PInt hub_count,
          PInt hub_count,
          PInt source_hub_loss,
          PInt hub_to_link_loss,
          PInt hub_to_sat_loss,
          PInt link_to_sat_loss,
          PInt sat_to_bizview_loss,
          PInt total_rows_lost,
          PInt deleted_count,
          PStr (json_dumps L (lost_json entry))])"

text \<open>
  The body of the loop over the configurations: the new \<^verbatim>\<open>lost_records\<close> and either the
  tuple appended to \<^verbatim>\<open>results\<close> or the exception that the handler around the body
  catches before it moves on to the next configuration.
\<close>

definition process_config ::
  "json_lib \<Rightarrow> session \<Rightarrow> config \<Rightarrow> (string \<times> lost) list
     \<Rightarrow> (string \<times> lost) list \<times> (exn + pyval list)" where
  "process_config L s cfg lost_records =
     (let table_name = table_name_of cfg;
          lost_records' = AList.update table_name (lost_entry L s cfg) lost_records
      in (lost_records',
          case lookup_lost lost_records' (PStr table_name) of
            Inl e \<Rightarrow> Inl e
          | Inr entry \<Rightarrow> Inr (result_tuple L s cfg entry)))"

fun main_loop ::
  "json_lib \<Rightarrow> session \<Rightarrow> config list \<Rightarrow> pyval list list \<times> (string \<times> lost) list
     \<Rightarrow> pyval list list \<times> (string \<times> lost) list" where
  "main_loop L s [] st = st"
| "main_loop L s (cfg # cfgs) (results, lost_records) =
     (case process_config L s cfg lost_records of
        (lost_records', Inl e) \<Rightarrow> main_loop L s cfgs (results, lost_records')
      | (lost_records', Inr row) \<Rightarrow> main_loop L s cfgs (results @ [row], lost_records'))"

text \<open>The summary loop after the frame is built. It only prints, but it indexes each
  tuple up to position 16 and looks its table name up in \<^verbatim>\<open>lost_records\<close>; \<open>Some e\<close>
  is the exception it would raise.\<close>

fun summary_log :: "pyval list list \<Rightarrow> (string \<times> lost) list \<Rightarrow> exn option" where
  "summary_log [] lost_records = None"
| "summary_log (result # rest) lost_records =
     (if length result \<le> 16 then Some ''tuple index out of range''
      else (case lookup_lost lost_records (result ! 0) of
              Inl e \<Rightarrow> Some e
            | Inr entry \<Rightarrow> summary_log rest lost_records))"

text \<open>\<^verbatim>\<open>main\<close> over a given configuration list. \<open>Inl\<close> is an exception that leaves
  \<^verbatim>\<open>main\<close>.\<close>

definition main_on :: "config list \<Rightarrow> json_lib \<Rightarrow> session \<Rightarrow> exn + dataframe" where
  "main_on cfgs L s =
     (case main_loop L s cfgs ([], []) of
        (results, lost_records) \<Rightarrow>
          (case create_dataframe s results result_schema of
             Inl e \<Rightarrow> create_dataframe s [] result_schema
           | Inr results_df \<Rightarrow>
               (case summary_log results lost_records of
                  Some e \<Rightarrow> create_dataframe s [] result_schema
                | None \<Rightarrow> Inr results_df)))"

text \<open>The static configuration list of the script.\<close>

definition entity_columns :: "string list" where
  "entity_columns =
     [''       PHONE, EMAIL, TIMEZONE, TYPE_ID, REGION_ID, MANAGER_ID,'',
      ''       REFERENCE_ID, EXTERNAL_ID, STATUS_CODE, CREATED_BY, UPDATED_BY, '',
      ''       UNIQUE_ID, _SYNCED_AT'']"

definition entity_except_query :: string where
  "entity_except_query =
     nl @ concat (map (\<lambda>l. l @ nl)
       ([''SELECT ID, NAME, CODE, STATUS, ACTIVE_DATE, ADDRESS, CITY, STATE, ZIP,'']
        @ entity_columns
        @ [''FROM SOURCE_DB.SOURCE_SCHEMA.ENTITY_TABLE'',
           ''EXCEPT'',
           ''SELECT E.ENTITY_ID, NAME, CODE, STATUS, ACTIVE_DATE, ADDRESS, CITY, STATE, ZIP,'']
        @ entity_columns
        @ [''FROM DV_DB.RAWVAULT.H_ENTITY E'',
           ''JOIN DV_DB.RAWVAULT.S_ENTITY_LROC_INFO SE ON E.HK_H_ENTITY = SE.HK_H_ENTITY'']))"

definition table_configs :: "config list" where
  "table_configs =
     [\<lparr> source_table = Some ''SOURCE_DB.SOURCE_SCHEMA.ENTITY_TABLE'',
        hub_table = Some ''DV_DB.RAWVAULT.H_ENTITY'',
        cur_satellite_table = Some ''DV_DB.RAWVAULT.S_ENTITY_LROC_INFO_CURRENT'',
        bizview_table = Some ''DV_DB.BIZVIEWS.FACT_ENTITY'',
        source_key = Some ''ID'',
        hub_key = Some ''ENTITY_ID'',
        satellite_hash_key = Some ''HK_H_ENTITY'',
        bizview_key = Some ''ENTITY_ID'',
        deleted_column = Some ''_IS_DELETED'',
        columns_to_compare =
          Some [''NAME'', ''CODE'', ''STATUS'', ''ACTIVE_DATE'', ''ADDRESS'', ''CITY'', ''STATE'',
                ''ZIP'', ''PHONE'', ''EMAIL'', ''TIMEZONE'', ''TYPE_ID'', ''REGION_ID'',
                ''MANAGER_ID'', ''REFERENCE_ID'', ''EXTERNAL_ID'', ''STATUS_CODE'',
                ''CREATED_BY'', ''UPDATED_BY'', ''UNIQUE_ID'', ''_SYNCED_AT''],
        custom_except_query = Some entity_except_query \<rparr>]"

definition main :: "json_lib \<Rightarrow> session \<Rightarrow> exn + dataframe" where
  "main = main_on table_configs"

text \<open>The field of a result tuple that the schema names \<open>name\<close>.\<close>

definition field :: "string \<Rightarrow> pyval list \<Rightarrow> pyval option" where
  "field name row = map_of (zip (map fst result_schema) row) name"

section \<open>Notions used to state the properties\<close>

text \<open>The summary row of one configuration: the tuple the loop body appends, with the
  entry it has just stored.\<close>

definition summary_row :: "json_lib \<Rightarrow> session \<Rightarrow> config \<Rightarrow> pyval list" where
  "summary_row L s cfg = result_tuple L s cfg (lost_entry L s cfg)"

text \<open>The \<^verbatim>\<open>results\<close> list when the loop over \<open>cfgs\<close> has ended.\<close>

definition results_of :: "config list \<Rightarrow> json_lib \<Rightarrow> session \<Rightarrow> pyval list list" where
  "results_of cfgs L s = fst (main_loop L s cfgs ([], []))"

text \<open>A cell fits a column of the schema: \<^verbatim>\<open>None\<close> fits every column.\<close>

fun conforms :: "pyval \<Rightarrow> field_type \<Rightarrow> bool" where
  "conforms PNone ty = True"
| "conforms (PStr v) ty = (ty = StringType \<or> ty = VariantType)"
| "conforms (PInt v) ty = (ty = LongType)"


text \<open>The two keys the script writes into each parsed record.\<close>

definition tag_keys :: "string set" where
  "tag_keys = {''__metadata'', ''__record_separator''}"

text \<open>
  What the specification describes for the layer counts: the number of rows of a table,
  as the warehouse answers \<^verbatim>\<open>SELECT COUNT(*) FROM table\<close>. It follows the
  specification's words; the script has no such count for the hub, link, satellite and
  business view tables.
\<close>

definition spec_layer_count :: "session \<Rightarrow> string \<Rightarrow> exn + int" where
  "spec_layer_count s tbl = first_cell (sql_count s (''SELECT COUNT(*) FROM '' @ tbl))"

text \<open>Two sessions give the same answers to the statements the script issues for a
  configuration: the source count, the non-deleted count, the count of the set
  difference and the \<^verbatim>\<open>TO_JSON\<close> statement.\<close>

definition same_answers :: "session \<Rightarrow> session \<Rightarrow> config \<Rightarrow> bool" where
  "same_answers s s' cfg =
     (sql_count s (source_count_query cfg) = sql_count s' (source_count_query cfg)
      \<and> (case deleted_column cfg of
            None \<Rightarrow> True
          | Some c \<Rightarrow>
              sql_count s (non_deleted_query cfg c) = sql_count s' (non_deleted_query cfg c))
      \<and> (case custom_except_query cfg of
            None \<Rightarrow> True
          | Some q \<Rightarrow>
              sql_count s (count_query q) = sql_count s' (count_query q)
              \<and> sql_json s (json_query q 10) = sql_json s' (json_query q 10)))"

section \<open>Concrete inputs\<close>

text \<open>The text \<^verbatim>\<open>{"ID":1}\<close>, one row as \<^verbatim>\<open>TO_JSON\<close> writes it.\<close>

definition demo_json :: string where
  "demo_json = ''{'' @ [CHR 0x22] @ ''ID'' @ [CHR 0x22] @ '':1}''"

definition demo_lib :: json_lib where
  "demo_lib =
     \<lparr> json_loads =
         (\<lambda>txt. if txt = demo_json then Loaded (JObj [(''ID'', JInt 1)])
                else JSONDecodeError ''Expecting value: line 1 column 1 (char 0)''),
       json_dumps = (\<lambda>j. ''{...}'') \<rparr>"

definition entity_config :: config where
  "entity_config = hd table_configs"

text \<open>A warehouse with 10 source rows, 9 of them not deleted, 1 row missing from the hub
  and 7 rows in the hub table.\<close>

definition demo_session :: session where
  "demo_session =
     \<lparr> sql_count =
         (\<lambda>q. if q = count_query entity_except_query then Inr [[1]]
              else if q = ''SELECT COUNT(*) FROM SOURCE_DB.SOURCE_SCHEMA.ENTITY_TABLE''
                then Inr [[10]]
              else if q = ''SELECT COUNT(*) FROM SOURCE_DB.SOURCE_SCHEMA.ENTITY_TABLE WHERE _IS_DELETED = FALSE''
                then Inr [[9]]
              else if q = ''SELECT COUNT(*) FROM DV_DB.RAWVAULT.H_ENTITY'' then Inr [[7]]
              else Inl ''SQL compilation error''),
       sql_json =
         (\<lambda>q. if q = json_query entity_except_query 10 then Inr [Some demo_json]
              else Inl ''SQL compilation error''),
       df_error = (\<lambda>data sch. None) \<rparr>"

text \<open>The same warehouse with another number of rows in the hub table.\<close>

definition demo_session_hub :: session where
  "demo_session_hub =
     demo_session
       \<lparr> sql_count :=
           (\<lambda>q. if q = ''SELECT COUNT(*) FROM DV_DB.RAWVAULT.H_ENTITY'' then Inr [[8]]
                else sql_count demo_session q) \<rparr>"

text \<open>The same warehouse where building a frame from rows fails and building the empty
  frame works.\<close>

definition rows_rejected_session :: session where
  "rows_rejected_session =
     demo_session
       \<lparr> df_error := (\<lambda>data sch. if data = [] then None else Some ''invalid data'') \<rparr>"

text \<open>The same warehouse where every \<^verbatim>\<open>create_dataframe\<close> call fails.\<close>

definition closed_session :: session where
  "closed_session = demo_session \<lparr> df_error := (\<lambda>data sch. Some ''session closed'') \<rparr>"

text \<open>A warehouse where the count statements fail and the \<^verbatim>\<open>TO_JSON\<close> statement returns
  no row.\<close>

definition count_failing_session :: session where
  "count_failing_session =
     \<lparr> sql_count = (\<lambda>q. Inl ''statement timed out''),
       sql_json = (\<lambda>q. Inr []),
       df_error = (\<lambda>data sch. None) \<rparr>"

text \<open>A warehouse where the count statements work and the \<^verbatim>\<open>TO_JSON\<close> statement
  fails.\<close>

definition json_failing_session :: session where
  "json_failing_session =
     \<lparr> sql_count = (\<lambda>q. Inr [[3]]),
       sql_json = (\<lambda>q. Inl ''statement timed out''),
       df_error = (\<lambda>data sch. None) \<rparr>"

text \<open>A warehouse with 2 rows missing from the hub, asked with \<^verbatim>\<open>LIMIT 1\<close>.\<close>

definition sample_session :: session where
  "sample_session =
     \<lparr> sql_count =
         (\<lambda>q. if q = count_query entity_except_query then Inr [[2]] else Inr [[10]]),
       sql_json =
         (\<lambda>q. if q = json_query entity_except_query 1 then Inr [Some demo_json]
              else Inl ''SQL compilation error''),
       df_error = (\<lambda>data sch. None) \<rparr>"

section \<open>The loop over the configurations\<close>

lemma split_on_nonempty: "split_on c s \<noteq> []"
  by (induction s) (auto split: list.splits)

lemma lookup_lost_update: "lookup_lost (AList.update k v l) (PStr k) = Inr v"
  by (simp add: lookup_lost_def update_conv')

text \<open>The handler around the loop body has nothing to catch: the body always appends
  the summary row of its configuration.\<close>

lemma process_config_eq:
  "process_config L s cfg lost =
     (AList.update (table_name_of cfg) (lost_entry L s cfg) lost, Inr (summary_row L s cfg))"
  by (simp add: process_config_def Let_def lookup_lost_update summary_row_def)

lemma main_loop_eq:
  "main_loop L s cfgs (results, lost) =
     (results @ map (summary_row L s) cfgs,
      fold (\<lambda>cfg. AList.update (table_name_of cfg) (lost_entry L s cfg)) cfgs lost)"
  by (induction cfgs arbitrary: results lost) (simp_all add: process_config_eq)

lemma results_of_eq: "results_of cfgs L s = map (summary_row L s) cfgs"
  by (simp add: results_of_def main_loop_eq)

lemma fold_update_keys:
  "fst ` set (fold (\<lambda>cfg. AList.update (f cfg) (g cfg)) cfgs lost)
     = f ` set cfgs \<union> fst ` set lost"
  by (induction cfgs arbitrary: lost) (auto simp: dom_update)

lemma summary_row_length: "length (summary_row L s cfg) = 18"
  by (simp add: summary_row_def result_tuple_def Let_def)

lemma summary_row_name: "summary_row L s cfg ! 0 = PStr (table_name_of cfg)"
  by (simp add: summary_row_def result_tuple_def Let_def)

lemma lookup_lost_known:
  "name \<in> fst ` set lost \<Longrightarrow> \<exists>entry. lookup_lost lost (PStr name) = Inr entry"
  by (cases "map_of lost name") (auto simp: lookup_lost_def map_of_eq_None_iff)

text \<open>The summary loop cannot raise on the rows the first loop produced.\<close>

lemma summary_log_rows:
  "table_name_of ` set cfgs \<subseteq> fst ` set lost
     \<Longrightarrow> summary_log (map (summary_row L s) cfgs) lost = None"
proof (induction cfgs)
  case Nil
  show ?case by simp
next
  case (Cons cfg cfgs)
  from Cons.prems have "table_name_of cfg \<in> fst ` set lost" by simp
  then obtain entry where "lookup_lost lost (PStr (table_name_of cfg)) = Inr entry"
    using lookup_lost_known by blast
  moreover from Cons have "summary_log (map (summary_row L s) cfgs) lost = None" by simp
  ultimately show ?case
    by (simp add: summary_row_length summary_row_name)
qed

lemma main_on_eq:
  "main_on cfgs L s =
     (case create_dataframe s (map (summary_row L s) cfgs) result_schema of
        Inl e \<Rightarrow> create_dataframe s [] result_schema
      | Inr results_df \<Rightarrow> Inr results_df)"
proof -
  let ?lost = "fold (\<lambda>cfg. AList.update (table_name_of cfg) (lost_entry L s cfg)) cfgs []"
  have "table_name_of ` set cfgs \<subseteq> fst ` set ?lost"
    by (simp add: fold_update_keys)
  then have "summary_log (map (summary_row L s) cfgs) ?lost = None"
    by (rule summary_log_rows)
  then show ?thesis
    by (simp add: main_on_def main_loop_eq split: sum.splits)
qed

lemma main_on_rows:
  assumes "main_on cfgs L s = Inr df"
  shows "df_schema df = result_schema"
    and "df_rows df = map (summary_row L s) cfgs \<or> df_rows df = []"
  using assms
  by (auto simp: main_on_eq create_dataframe_def split: sum.splits option.splits)

lemma main_on_row:
  assumes "main_on cfgs L s = Inr df" and "i < length (df_rows df)"
  shows "i < length cfgs" and "df_rows df ! i = summary_row L s (cfgs ! i)"
  using assms main_on_rows(2) [OF assms(1)] by auto

section \<open>Summary rows and the concrete warehouse\<close>

lemma summary_row_eq:
  "summary_row L s cfg =
     [PStr (table_name_of cfg),
      opt_str (source_table cfg),
      PStr (get_default (hub_table cfg) []),
      PStr (get_default (cur_satellite_table cfg) []),
      PStr (get_default (bizview_table cfg) []),
      PInt (fst (deleted_counts s cfg)),
      PInt (fst (deleted_counts s cfg) - fst (extract_missing_records L s cfg 10)),
      PInt (fst (deleted_counts s cfg) - fst (extract_missing_records L s cfg 10)),
      PInt (fst (deleted_counts s cfg) - fst (extract_missing_records L s cfg 10)),
      PInt (fst (deleted_counts s cfg) - fst (extract_missing_records L s cfg 10)),
      PInt (fst (extract_missing_records L s cfg 10)),
      PInt 0, PInt 0, PInt 0, PInt 0,
      PInt (fst (extract_missing_records L s cfg 10)),
      PInt (snd (deleted_counts s cfg)),
      PStr (json_dumps L (lost_json (lost_entry L s cfg)))]"
  by (simp add: summary_row_def result_tuple_def Let_def)

lemma entity_config_fields:
  "source_table entity_config = Some ''SOURCE_DB.SOURCE_SCHEMA.ENTITY_TABLE''"
  "hub_table entity_config = Some ''DV_DB.RAWVAULT.H_ENTITY''"
  "cur_satellite_table entity_config = Some ''DV_DB.RAWVAULT.S_ENTITY_LROC_INFO_CURRENT''"
  "bizview_table entity_config = Some ''DV_DB.BIZVIEWS.FACT_ENTITY''"
  "deleted_column entity_config = Some ''_IS_DELETED''"
  "custom_except_query entity_config = Some entity_except_query"
  by (simp_all add: entity_config_def table_configs_def)

lemma table_configs_eq: "table_configs = [entity_config]"
  by (simp add: entity_config_def table_configs_def)

lemma entity_except_query_nonempty: "entity_except_query \<noteq> []"
  by (simp add: entity_except_query_def nl_def)

lemma entity_truthy: "truthy (custom_except_query entity_config)"
  by (simp add: entity_config_fields truthy_def entity_except_query_nonempty)

lemma demo_counts: "deleted_counts demo_session entity_config = (9, 1)"
  by (simp add: deleted_counts_def source_count_of_def source_count_query_def
      non_deleted_query_def entity_config_fields str_opt_def demo_session_def first_cell_def
      count_query_def)

lemma demo_extract:
  "extract_missing_records demo_lib demo_session entity_config 10 =
     (1, [JObj [(''ID'', JInt 1),
                (''__metadata'', missing_metadata (table_names_of entity_config)),
                (''__record_separator'', JBool True)]])"
  by (simp add: extract_missing_records_def entity_truthy entity_config_fields
      demo_session_def first_cell_def row_record_def truthy_def demo_lib_def demo_json_def
      tag_record_def missing_metadata_def entity_except_query_nonempty)

lemma demo_dumps: "json_dumps demo_lib j = ''{...}''"
  by (simp add: demo_lib_def)

lemma demo_row:
  "summary_row demo_lib demo_session entity_config =
     [PStr ''ENTITY_TABLE'', PStr ''SOURCE_DB.SOURCE_SCHEMA.ENTITY_TABLE'',
      PStr ''DV_DB.RAWVAULT.H_ENTITY'', PStr ''DV_DB.RAWVAULT.S_ENTITY_LROC_INFO_CURRENT'',
      PStr ''DV_DB.BIZVIEWS.FACT_ENTITY'', PInt 9, PInt 8, PInt 8, PInt 8, PInt 8, PInt 1,
      PInt 0, PInt 0, PInt 0, PInt 0, PInt 1, PInt 1, PStr ''{...}'']"
  by (simp add: summary_row_eq demo_counts demo_extract table_name_of_def entity_config_fields
      get_default_def opt_str_def demo_dumps)

lemma demo_main:
  "main demo_lib demo_session =
     Inr \<lparr> df_schema = result_schema,
            df_rows = [summary_row demo_lib demo_session entity_config] \<rparr>"
  by (simp add: main_def table_configs_eq main_on_eq create_dataframe_def demo_session_def)

lemma field_simps:
  "field ''TABLE_NAME'' (a0 # r) = Some a0"
  "field ''SOURCE_TABLE'' (a0 # a1 # r) = Some a1"
  "field ''SOURCE_COUNT'' (a0 # a1 # a2 # a3 # a4 # a5 # r) = Some a5"
  "field ''HUB_COUNT'' (a0 # a1 # a2 # a3 # a4 # a5 # a6 # r) = Some a6"
  "field ''LINK_COUNT'' (a0 # a1 # a2 # a3 # a4 # a5 # a6 # a7 # r) = Some a7"
  "field ''CURRENT_SATELLITE_COUNT'' (a0 # a1 # a2 # a3 # a4 # a5 # a6 # a7 # a8 # r) = Some a8"
  "field ''BIZVIEW_COUNT'' (a0 # a1 # a2 # a3 # a4 # a5 # a6 # a7 # a8 # a9 # r) = Some a9"
  "field ''SOURCE_TO_HUB_LOSS''
     (a0 # a1 # a2 # a3 # a4 # a5 # a6 # a7 # a8 # a9 # a10 # r) = Some a10"
  "field ''HUB_TO_LINK_LOSS''
     (a0 # a1 # a2 # a3 # a4 # a5 # a6 # a7 # a8 # a9 # a10 # a11 # r) = Some a11"
  "field ''HUB_TO_SAT_LOSS''
     (a0 # a1 # a2 # a3 # a4 # a5 # a6 # a7 # a8 # a9 # a10 # a11 # a12 # r) = Some a12"
  "field ''LINK_TO_SAT_LOSS''
     (a0 # a1 # a2 # a3 # a4 # a5 # a6 # a7 # a8 # a9 # a10 # a11 # a12 # a13 # r) = Some a13"
  "field ''SAT_TO_BIZVIEW_LOSS''
     (a0 # a1 # a2 # a3 # a4 # a5 # a6 # a7 # a8 # a9 # a10 # a11 # a12 # a13 # a14 # r)
       = Some a14"
  "field ''TOTAL_ROWS_LOST''
     (a0 # a1 # a2 # a3 # a4 # a5 # a6 # a7 # a8 # a9 # a10 # a11 # a12 # a13 # a14 # a15 # r)
       = Some a15"
  by (simp_all add: field_def result_schema_def)

lemma extract_count:
  "truthy (custom_except_query cfg) \<Longrightarrow>
     fst (extract_missing_records L s cfg limit) =
       (case first_cell (sql_count s (count_query (the (custom_except_query cfg)))) of
          Inl e \<Rightarrow> 0
        | Inr n \<Rightarrow> n)"
  by (simp add: extract_missing_records_def Let_def split: sum.splits)

lemma demo_frame:
  "main_on table_configs demo_lib demo_session
     = Inr \<lparr> df_schema = result_schema,
              df_rows = [summary_row demo_lib demo_session entity_config] \<rparr>"
  using demo_main by (simp add: main_def)

lemma demo_except_count:
  "first_cell (sql_count demo_session (count_query entity_except_query)) = Inr 1"
  by (simp add: demo_session_def first_cell_def)



lemma extract_cong:
  "same_answers s s' cfg \<Longrightarrow>
     extract_missing_records L s cfg 10 = extract_missing_records L s' cfg 10"
  by (cases "custom_except_query cfg")
     (simp_all add: extract_missing_records_def same_answers_def truthy_def)

lemma deleted_counts_cong:
  "same_answers s s' cfg \<Longrightarrow> deleted_counts s cfg = deleted_counts s' cfg"
  by (cases "deleted_column cfg")
     (simp_all add: deleted_counts_def source_count_of_def same_answers_def)

lemma summary_row_cong:
  "same_answers s s' cfg \<Longrightarrow> summary_row L s cfg = summary_row L s' cfg"
  by (simp add: summary_row_eq lost_entry_def extract_cong [of s s'] deleted_counts_cong [of s s'])

lemma demo_hub_count: "spec_layer_count demo_session ''DV_DB.RAWVAULT.H_ENTITY'' = Inr 7"
  by (simp add: spec_layer_count_def demo_session_def first_cell_def count_query_def)

lemma demo_hub_count_other:
  "spec_layer_count demo_session_hub ''DV_DB.RAWVAULT.H_ENTITY'' = Inr 8"
  by (simp add: spec_layer_count_def demo_session_hub_def first_cell_def)

lemma demo_same_answers: "same_answers demo_session demo_session_hub entity_config"
  by (simp add: same_answers_def entity_config_fields demo_session_hub_def
      source_count_query_def non_deleted_query_def str_opt_def count_query_def)

section \<open>The loop over the collected rows\<close>

lemma process_rows_Inr:
  "process_rows L t rows acc = Inr recs \<Longrightarrow>
     \<exists>ds. recs = acc @ ds \<and> list_all2 (\<lambda>row d. row_record L t row = Inr d) rows ds"
proof (induction rows arbitrary: acc)
  case Nil
  then show ?case by simp
next
  case (Cons row rows)
  then obtain d where d: "row_record L t row = Inr d"
    and rest: "process_rows L t rows (acc @ [d]) = Inr recs"
    by (auto split: sum.splits)
  from Cons.IH [OF rest] obtain ds where
    "recs = (acc @ [d]) @ ds" "list_all2 (\<lambda>row d. row_record L t row = Inr d) rows ds"
    by blast
  with d have "recs = acc @ (d # ds)
      \<and> list_all2 (\<lambda>row d. row_record L t row = Inr d) (row # rows) (d # ds)"
    by simp
  then show ?case by blast
qed

lemma process_rows_nth:
  assumes "process_rows L t rows [] = Inr recs"
  shows "length recs = length rows"
    and "i < length rows \<Longrightarrow> row_record L t (rows ! i) = Inr (recs ! i)"
  using process_rows_Inr [OF assms] by (auto simp: list_all2_conv_all_nth)

lemma tag_record_dict:
  "tag_record t (JObj d) =
     Inr (JObj (AList.update ''__record_separator'' (JBool True)
                  (AList.update ''__metadata'' (missing_metadata t) d)))"
  by (simp add: tag_record_def)

lemma tag_record_Inr: "tag_record t v = Inr r \<Longrightarrow> \<exists>d. r = JObj d"
  by (cases v) (auto simp: tag_record_def)

lemma row_record_Inr: "row_record L t row = Inr r \<Longrightarrow> \<exists>d. r = JObj d"
  by (auto simp: row_record_def parse_error_record_def empty_result_record_def
      split: if_splits loads_result.splits dest: tag_record_Inr)

lemma process_rows_dicts:
  assumes "process_rows L t rows [] = Inr recs" and "r \<in> set recs"
  shows "\<exists>d. r = JObj d"
proof -
  from assms(2) obtain i where "i < length recs" "recs ! i = r"
    by (auto simp: in_set_conv_nth)
  with process_rows_nth [OF assms(1)] have "row_record L t (rows ! i) = Inr r"
    by simp
  then show ?thesis by (rule row_record_Inr)
qed

lemma extract_snd:
  assumes "truthy (custom_except_query cfg)"
  shows "snd (extract_missing_records L s cfg limit) =
     (case sql_json s (json_query (the (custom_except_query cfg)) limit) of
        Inl e \<Rightarrow> [json_error_record (table_names_of cfg) e]
      | Inr rows \<Rightarrow>
          (case process_rows L (table_names_of cfg) rows [] of
             Inl e \<Rightarrow> [json_error_record (table_names_of cfg) e]
           | Inr recs \<Rightarrow>
               (if fst (extract_missing_records L s cfg limit) > limit
                then recs @ [note_record (table_names_of cfg) limit
                               (fst (extract_missing_records L s cfg limit))]
                else recs)))"
  using assms
  by (simp add: extract_missing_records_def Let_def split: sum.splits)



lemma demo_record:
  "row_record demo_lib t (Some demo_json) =
     Inr (JObj [(''ID'', JInt 1),
               (''__metadata'', missing_metadata t),
               (''__record_separator'', JBool True)])"
  by (simp add: row_record_def truthy_def demo_lib_def demo_json_def tag_record_def)

lemma demo_rows:
  "process_rows demo_lib t [Some demo_json] [] =
     Inr [JObj [(''ID'', JInt 1),
                (''__metadata'', missing_metadata t),
                (''__record_separator'', JBool True)]]"
  by (simp add: demo_record)

lemma sample_json:
  "sql_json sample_session (json_query (the (custom_except_query entity_config)) 1)
     = Inr [Some demo_json]"
  by (simp add: sample_session_def entity_config_fields)

lemma sample_count: "fst (extract_missing_records L sample_session entity_config 1) = 2"
  using extract_count [OF entity_truthy, of L sample_session 1]
  by (simp add: entity_config_fields sample_session_def first_cell_def)

lemma tagged_map_of:
  "map_of (AList.update ''__record_separator'' (JBool True)
             (AList.update ''__metadata'' m d))
     = (map_of d)(''__metadata'' \<mapsto> m, ''__record_separator'' \<mapsto> JBool True)"
  by (simp add: update_conv')

lemma tagged_keys:
  "fst ` set (AList.update ''__record_separator'' (JBool True)
                (AList.update ''__metadata'' m d))
     = fst ` set d \<union> tag_keys"
  by (auto simp: dom_update tag_keys_def)

lemma demo_json_rows:
  "sql_json demo_session (json_query (the (custom_except_query entity_config)) 10)
     = Inr [Some demo_json]"
  by (simp add: demo_session_def entity_config_fields)

lemma demo_loads: "json_loads demo_lib demo_json = Loaded (JObj [(''ID'', JInt 1)])"
  by (simp add: demo_lib_def)

section \<open>Properties of the script\<close>

text \<open>
  C1, as the script has it. The HUB_COUNT, LINK_COUNT, CURRENT_SATELLITE_COUNT and
  BIZVIEW_COUNT of a summary row all hold one derived value, the non-deleted source count
  minus the loss between source and hub. No row of the hub, link, satellite or business
  view tables is counted: the row is the same for every warehouse that answers the
  source count, the non-deleted count, the set-difference count and the \<^verbatim>\<open>TO_JSON\<close>
  statement in the same way.
\<close>

theorem layer_counts_derived:
  assumes "main_on cfgs L s = Inr df" and "i < length (df_rows df)"
  shows "field ''HUB_COUNT'' (df_rows df ! i)
           = Some (PInt (fst (deleted_counts s (cfgs ! i))
                          - fst (extract_missing_records L s (cfgs ! i) 10)))
       \<and> field ''LINK_COUNT'' (df_rows df ! i) = field ''HUB_COUNT'' (df_rows df ! i)
       \<and> field ''CURRENT_SATELLITE_COUNT'' (df_rows df ! i)
           = field ''HUB_COUNT'' (df_rows df ! i)
       \<and> field ''BIZVIEW_COUNT'' (df_rows df ! i) = field ''HUB_COUNT'' (df_rows df ! i)
       \<and> (\<forall>s'. same_answers s s' (cfgs ! i)
               \<longrightarrow> summary_row L s' (cfgs ! i) = df_rows df ! i)"
proof -
  have row: "df_rows df ! i = summary_row L s (cfgs ! i)"
    using assms by (rule main_on_row)
  have "\<forall>s'. same_answers s s' (cfgs ! i) \<longrightarrow> summary_row L s' (cfgs ! i) = df_rows df ! i"
    using row summary_row_cong by fastforce
  then show ?thesis
    using row by (simp add: summary_row_eq field_simps)
qed

theorem layer_counts_derived_witness:
  "main_on table_configs demo_lib demo_session
     = Inr \<lparr> df_schema = result_schema,
              df_rows = [summary_row demo_lib demo_session entity_config] \<rparr>
   \<and> same_answers demo_session demo_session_hub (table_configs ! 0)
   \<and> spec_layer_count demo_session ''DV_DB.RAWVAULT.H_ENTITY'' = Inr 7
   \<and> spec_layer_count demo_session_hub ''DV_DB.RAWVAULT.H_ENTITY'' = Inr 8
   \<and> summary_row demo_lib demo_session_hub (table_configs ! 0)
       = summary_row demo_lib demo_session entity_config
   \<and> field ''HUB_COUNT'' (summary_row demo_lib demo_session entity_config) = Some (PInt 8)"
proof -
  let ?df = "\<lparr> df_schema = result_schema,
                df_rows = [summary_row demo_lib demo_session entity_config] \<rparr>"
  have i: "0 < length (df_rows ?df)" by simp
  have a: "same_answers demo_session demo_session_hub (table_configs ! 0)"
    by (simp add: table_configs_eq demo_same_answers)
  note th = layer_counts_derived [OF demo_frame i]
  have "summary_row demo_lib demo_session_hub (table_configs ! 0)
          = summary_row demo_lib demo_session entity_config"
    using th a by simp
  moreover have "field ''HUB_COUNT'' (summary_row demo_lib demo_session entity_config)
                   = Some (PInt 8)"
    using th by (simp add: table_configs_eq demo_counts demo_extract)
  ultimately show ?thesis
    using demo_frame a demo_hub_count demo_hub_count_other by simp
qed

text \<open>
  C1 as it is stated fails: with 7 rows in the hub table the script reports a hub count
  of 8, which is 9 non-deleted source rows minus 1 missing row.
\<close>

theorem layer_counts_counterexample:
  "main demo_lib demo_session
     = Inr \<lparr> df_schema = result_schema,
              df_rows = [summary_row demo_lib demo_session entity_config] \<rparr>
   \<and> field ''HUB_COUNT'' (summary_row demo_lib demo_session entity_config) = Some (PInt 8)
   \<and> hub_table entity_config = Some ''DV_DB.RAWVAULT.H_ENTITY''
   \<and> spec_layer_count demo_session ''DV_DB.RAWVAULT.H_ENTITY'' = Inr 7"
  using demo_main demo_hub_count by (simp add: demo_row field_simps entity_config_fields)

lemma note_record_text:
  "note_record (table_names_of cfg) limit c =
     JObj [(''NOTE'',
            JStr (''Showing '' @ str_int limit @ '' of '' @ str_int c
                    @ '' total missing records'')),
           (''source_table'', JStr (get_default (source_table cfg) ''UNKNOWN_SOURCE'')),
           (''hub_table'', JStr (get_default (hub_table cfg) ''UNKNOWN_HUB'')),
           (''satellite_table'',
            JStr (get_default (cur_satellite_table cfg) ''UNKNOWN_SATELLITE'')),
           (''bizview_table'', JStr (get_default (bizview_table cfg) ''UNKNOWN_BIZVIEW''))]"
  by (simp add: note_record_def table_entries_def table_names_of_def)

lemma extract_count_cases:
  assumes "truthy (custom_except_query cfg)"
  shows "sql_count s (''SELECT COUNT(*) FROM ('' @ the (custom_except_query cfg) @ '')'')
           = Inr ((n # cells) # rows)
         \<Longrightarrow> fst (extract_missing_records L s cfg limit) = n"
    and "sql_count s (''SELECT COUNT(*) FROM ('' @ the (custom_except_query cfg) @ '')'')
           = Inl e
         \<Longrightarrow> fst (extract_missing_records L s cfg limit) = 0"
    and "sql_count s (''SELECT COUNT(*) FROM ('' @ the (custom_except_query cfg) @ '')'')
           = Inr []
         \<Longrightarrow> fst (extract_missing_records L s cfg limit) = 0"
    and "sql_count s (''SELECT COUNT(*) FROM ('' @ the (custom_except_query cfg) @ '')'')
           = Inr ([] # rows)
         \<Longrightarrow> fst (extract_missing_records L s cfg limit) = 0"
  using assms
  by (simp_all add: extract_count count_query_def first_cell_def)

text \<open>
  C2. For a configuration that carries a custom EXCEPT query, the SOURCE_TO_HUB_LOSS of
  its summary row is the first component of the pair \<open>extract_missing_records\<close>
  returns. This is the count the warehouse returns for the set-difference query: the
  first cell of the first row it answers to \<^verbatim>\<open>SELECT COUNT(*) FROM (query)\<close>, the
  statement built around the configuration's EXCEPT query. When that statement raises or
  returns no cell, the component is 0.
\<close>

theorem source_to_hub_loss_is_except_count:
  assumes "main_on cfgs L s = Inr df" and "i < length (df_rows df)"
    and "truthy (custom_except_query (cfgs ! i))"
  shows "field ''SOURCE_TO_HUB_LOSS'' (df_rows df ! i)
           = Some (PInt (fst (extract_missing_records L s (cfgs ! i) 10)))
       \<and> (\<forall>n cells rows.
             sql_count s (''SELECT COUNT(*) FROM ('' @ the (custom_except_query (cfgs ! i))
                            @ '')'')
               = Inr ((n # cells) # rows)
             \<longrightarrow> field ''SOURCE_TO_HUB_LOSS'' (df_rows df ! i) = Some (PInt n))
       \<and> (\<forall>e.
             sql_count s (''SELECT COUNT(*) FROM ('' @ the (custom_except_query (cfgs ! i))
                            @ '')'')
               = Inl e
             \<longrightarrow> field ''SOURCE_TO_HUB_LOSS'' (df_rows df ! i) = Some (PInt 0))
       \<and> (\<forall>rows.
             sql_count s (''SELECT COUNT(*) FROM ('' @ the (custom_except_query (cfgs ! i))
                            @ '')'')
               \<in> {Inr [], Inr ([] # rows)}
             \<longrightarrow> field ''SOURCE_TO_HUB_LOSS'' (df_rows df ! i) = Some (PInt 0))"
proof -
  have "df_rows df ! i = summary_row L s (cfgs ! i)"
    using assms(1,2) by (rule main_on_row)
  then have loss: "field ''SOURCE_TO_HUB_LOSS'' (df_rows df ! i)
                     = Some (PInt (fst (extract_missing_records L s (cfgs ! i) 10)))"
    by (simp add: summary_row_eq field_simps)
  show ?thesis
    unfolding loss
    using extract_count_cases [OF assms(3)]
    by auto
qed

theorem source_to_hub_loss_is_except_count_witness:
  "main_on table_configs demo_lib demo_session
     = Inr \<lparr> df_schema = result_schema,
              df_rows = [summary_row demo_lib demo_session entity_config] \<rparr>
   \<and> truthy (custom_except_query (table_configs ! 0))
   \<and> custom_except_query (table_configs ! 0) = Some entity_except_query
   \<and> sql_count demo_session (''SELECT COUNT(*) FROM ('' @ entity_except_query @ '')'')
       = Inr [[1]]
   \<and> field ''SOURCE_TO_HUB_LOSS'' (summary_row demo_lib demo_session entity_config)
       = Some (PInt 1)"
proof -
  let ?df = "\<lparr> df_schema = result_schema,
                df_rows = [summary_row demo_lib demo_session entity_config] \<rparr>"
  have i: "0 < length (df_rows ?df)" by simp
  have t: "truthy (custom_except_query (table_configs ! 0))"
    by (simp add: table_configs_eq entity_truthy)
  have q: "custom_except_query (table_configs ! 0) = Some entity_except_query"
    by (simp add: table_configs_eq entity_config_fields)
  have c: "sql_count demo_session (''SELECT COUNT(*) FROM ('' @ entity_except_query @ '')'')
             = Inr [[1]]"
    by (simp add: demo_session_def count_query_def)
  have "field ''SOURCE_TO_HUB_LOSS'' (summary_row demo_lib demo_session entity_config)
          = Some (PInt 1)"
    using source_to_hub_loss_is_except_count [OF demo_frame i t, THEN conjunct2, THEN conjunct1]
      c q
    by simp
  with demo_frame t q c show ?thesis
    by simp
qed




text \<open>
  C4, as the script has it. In a successful extraction, a row that parses to a
  dictionary is stored as that dictionary with the keys \<^verbatim>\<open>__metadata\<close> and
  \<^verbatim>\<open>__record_separator\<close> set by the script: every other key keeps its value, and no
  other key is added or removed.
\<close>

theorem parsed_records_tagged:
  assumes "truthy (custom_except_query cfg)"
    and "sql_json s (json_query (the (custom_except_query cfg)) limit) = Inr rows"
    and "process_rows L (table_names_of cfg) rows [] = Inr recs"
    and "i < length rows"
    and "truthy (rows ! i)"
    and "json_loads L (the (rows ! i)) = Loaded (JObj d)"
  shows "\<exists>d'. snd (extract_missing_records L s cfg limit) ! i = JObj d'
            \<and> map_of d' = (map_of d)(''__metadata'' \<mapsto> missing_metadata (table_names_of cfg),
                                       ''__record_separator'' \<mapsto> JBool True)
            \<and> (\<forall>k. k \<notin> tag_keys \<longrightarrow> map_of d' k = map_of d k)
            \<and> fst ` set d' = fst ` set d \<union> tag_keys"
proof -
  let ?t = "table_names_of cfg"
  let ?d' = "AList.update ''__record_separator'' (JBool True)
               (AList.update ''__metadata'' (missing_metadata ?t) d)"
  have "row_record L ?t (rows ! i) = Inr (recs ! i)"
    using assms(3,4) by (rule process_rows_nth)
  then have rec: "recs ! i = JObj ?d'"
    using assms(5,6) by (simp add: row_record_def tag_record_dict)
  have len: "length recs = length rows"
    using assms(3) by (rule process_rows_nth)
  have "snd (extract_missing_records L s cfg limit) ! i = recs ! i"
    using extract_snd [OF assms(1), of L s limit] assms(2,3,4) len
    by (simp add: nth_append)
  with rec have "snd (extract_missing_records L s cfg limit) ! i = JObj ?d'"
    by simp
  moreover have "\<forall>k. k \<notin> tag_keys \<longrightarrow> map_of ?d' k = map_of d k"
    by (simp add: tagged_map_of tag_keys_def)
  ultimately show ?thesis
    using tagged_map_of tagged_keys by blast
qed

theorem parsed_records_tagged_witness:
  "truthy (custom_except_query entity_config)
   \<and> sql_json demo_session (json_query (the (custom_except_query entity_config)) 10)
       = Inr [Some demo_json]
   \<and> json_loads demo_lib demo_json = Loaded (JObj [(''ID'', JInt 1)])
   \<and> (\<exists>d'. snd (extract_missing_records demo_lib demo_session entity_config 10) ! 0 = JObj d'
            \<and> map_of d' ''ID'' = Some (JInt 1)
            \<and> fst ` set d' = {''ID''} \<union> tag_keys)"
proof -
  have i: "0 < length [Some demo_json]" by simp
  have t: "truthy ([Some demo_json] ! 0)"
    by (simp add: truthy_def demo_json_def)
  have l: "json_loads demo_lib (the ([Some demo_json] ! 0)) = Loaded (JObj [(''ID'', JInt 1)])"
    by (simp add: demo_loads)
  from parsed_records_tagged [OF entity_truthy demo_json_rows demo_rows i t l]
  obtain d' where
    "snd (extract_missing_records demo_lib demo_session entity_config 10) ! 0 = JObj d'"
    "\<forall>k. k \<notin> tag_keys \<longrightarrow> map_of d' k = map_of [(''ID'', JInt 1)] k"
    "fst ` set d' = fst ` set [(''ID'', JInt 1)] \<union> tag_keys"
    by blast
  moreover have "''ID'' \<notin> tag_keys" by (simp add: tag_keys_def)
  ultimately have "\<exists>d'. snd (extract_missing_records demo_lib demo_session entity_config 10) ! 0
                          = JObj d'
            \<and> map_of d' ''ID'' = Some (JInt 1)
            \<and> fst ` set d' = {''ID''} \<union> tag_keys"
    by auto
  with entity_truthy demo_json_rows demo_loads show ?thesis
    by blast
qed

text \<open>
  C4 as it is stated fails: the dictionary stored for the row \<^verbatim>\<open>{"ID":1}\<close> has two keys
  more than the parsed one.
\<close>

theorem parsed_records_tagged_counterexample:
  "sql_json demo_session (json_query (the (custom_except_query entity_config)) 10)
     = Inr [Some demo_json]
   \<and> json_loads demo_lib demo_json = Loaded (JObj [(''ID'', JInt 1)])
   \<and> lost_source_to_hub (lost_entry demo_lib demo_session entity_config)
       = [JObj [(''ID'', JInt 1),
                (''__metadata'', missing_metadata (table_names_of entity_config)),
                (''__record_separator'', JBool True)]]
   \<and> lost_source_to_hub (lost_entry demo_lib demo_session entity_config)
       \<noteq> [JObj [(''ID'', JInt 1)]]"
  using demo_json_rows demo_loads
  by (simp add: lost_entry_def Let_def demo_extract)



text \<open>
  C6. In every summary row that \<open>main\<close> returns, the four losses after the hub are 0,
  the total of lost rows is the loss between source and hub, the source count is the
  number of non-deleted source rows, and the hub, link, satellite and business view
  counts all are the source count minus the loss between source and hub.
\<close>

theorem loss_invariants:
  assumes "main_on cfgs L s = Inr df" and "i < length (df_rows df)"
  shows "field ''HUB_TO_LINK_LOSS'' (df_rows df ! i) = Some (PInt 0)
       \<and> field ''HUB_TO_SAT_LOSS'' (df_rows df ! i) = Some (PInt 0)
       \<and> field ''LINK_TO_SAT_LOSS'' (df_rows df ! i) = Some (PInt 0)
       \<and> field ''SAT_TO_BIZVIEW_LOSS'' (df_rows df ! i) = Some (PInt 0)
       \<and> field ''TOTAL_ROWS_LOST'' (df_rows df ! i)
             = field ''SOURCE_TO_HUB_LOSS'' (df_rows df ! i)
       \<and> field ''SOURCE_COUNT'' (df_rows df ! i)
             = Some (PInt (fst (deleted_counts s (cfgs ! i))))
       \<and> (\<exists>n l. field ''SOURCE_COUNT'' (df_rows df ! i) = Some (PInt n)
                \<and> field ''SOURCE_TO_HUB_LOSS'' (df_rows df ! i) = Some (PInt l)
                \<and> field ''HUB_COUNT'' (df_rows df ! i) = Some (PInt (n - l))
                \<and> field ''LINK_COUNT'' (df_rows df ! i) = Some (PInt (n - l))
                \<and> field ''CURRENT_SATELLITE_COUNT'' (df_rows df ! i) = Some (PInt (n - l))
                \<and> field ''BIZVIEW_COUNT'' (df_rows df ! i) = Some (PInt (n - l)))"
proof -
  have "df_rows df ! i = summary_row L s (cfgs ! i)"
    using assms by (rule main_on_row)
  then show ?thesis
    by (simp add: summary_row_eq field_simps)
qed

theorem loss_invariants_witness:
  "main_on table_configs demo_lib demo_session
     = Inr \<lparr> df_schema = result_schema,
              df_rows = [summary_row demo_lib demo_session entity_config] \<rparr>
   \<and> field ''TOTAL_ROWS_LOST'' (summary_row demo_lib demo_session entity_config)
       = Some (PInt 1)
   \<and> field ''SOURCE_COUNT'' (summary_row demo_lib demo_session entity_config) = Some (PInt 9)
   \<and> field ''HUB_COUNT'' (summary_row demo_lib demo_session entity_config) = Some (PInt 8)"
proof -
  let ?df = "\<lparr> df_schema = result_schema,
                df_rows = [summary_row demo_lib demo_session entity_config] \<rparr>"
  have m: "main_on table_configs demo_lib demo_session = Inr ?df"
    using demo_main by (simp add: main_def)
  have i: "0 < length (df_rows ?df)" by simp
  from loss_invariants [OF m i] m show ?thesis
    by (simp add: demo_row field_simps)
qed

text \<open>
  C7, as the script has it. \<open>extract_missing_records\<close> always returns a pair of a count
  and a list of dictionaries, and no exception leaves it. Without a custom EXCEPT query
  it returns \<open>(0, [])\<close>. When the \<^verbatim>\<open>TO_JSON\<close> statement fails, or an exception other than
  a \<^verbatim>\<open>JSONDecodeError\<close> leaves the loop over the rows, the list is one error dictionary
  that carries the four table names as its metadata. A failing count statement only sets
  the count to 0: the list is then what the \<^verbatim>\<open>TO_JSON\<close> statement and the loop give, the
  entries of the rows when both succeed.
\<close>

theorem extract_missing_records_handlers:
  "(\<forall>r \<in> set (snd (extract_missing_records L s cfg limit)). \<exists>d. r = JObj d)
   \<and> (\<not> truthy (custom_except_query cfg)
        \<longrightarrow> extract_missing_records L s cfg limit = (0, []))
   \<and> (truthy (custom_except_query cfg) \<longrightarrow>
        (\<forall>e. sql_json s (json_query (the (custom_except_query cfg)) limit) = Inl e
            \<longrightarrow> snd (extract_missing_records L s cfg limit)
                  = [json_error_record (table_names_of cfg) e])
        \<and> (\<forall>rows e. sql_json s (json_query (the (custom_except_query cfg)) limit) = Inr rows
                 \<and> process_rows L (table_names_of cfg) rows [] = Inl e
            \<longrightarrow> snd (extract_missing_records L s cfg limit)
                  = [json_error_record (table_names_of cfg) e]))
   \<and> (\<forall>e. json_error_record (table_names_of cfg) e
          = JObj [(''error'', JStr (''JSON processing error: '' @ e)),
                  (''__metadata'',
                   JObj [(''source_table'',
                          JStr (get_default (source_table cfg) ''UNKNOWN_SOURCE'')),
                         (''hub_table'', JStr (get_default (hub_table cfg) ''UNKNOWN_HUB'')),
                         (''satellite_table'',
                          JStr (get_default (cur_satellite_table cfg) ''UNKNOWN_SATELLITE'')),
                         (''bizview_table'',
                          JStr (get_default (bizview_table cfg) ''UNKNOWN_BIZVIEW''))])])
   \<and> (truthy (custom_except_query cfg) \<longrightarrow>
        (\<forall>e. sql_count s (''SELECT COUNT(*) FROM ('' @ the (custom_except_query cfg) @ '')'')
                = Inl e
            \<longrightarrow> fst (extract_missing_records L s cfg limit) = 0
              \<and> (\<forall>rows recs.
                    sql_json s (json_query (the (custom_except_query cfg)) limit) = Inr rows
                    \<and> process_rows L (table_names_of cfg) rows [] = Inr recs
                    \<longrightarrow> snd (extract_missing_records L s cfg limit)
                          = (if 0 > limit
                             then recs @ [note_record (table_names_of cfg) limit 0]
                             else recs))))"
proof -
  let ?r = "extract_missing_records L s cfg limit"
  have dicts: "\<forall>r \<in> set (snd ?r). \<exists>d. r = JObj d"
  proof (cases "truthy (custom_except_query cfg)")
    case False
    then show ?thesis by (simp add: extract_missing_records_def)
  next
    case True
    show ?thesis
      using extract_snd [OF True, of L s limit]
      by (auto simp: json_error_record_def note_record_def
          split: sum.splits if_splits dest: process_rows_dicts)
  qed
  have none: "\<not> truthy (custom_except_query cfg) \<longrightarrow> ?r = (0, [])"
    by (simp add: extract_missing_records_def)
  have fail: "truthy (custom_except_query cfg) \<longrightarrow>
        (\<forall>e. sql_json s (json_query (the (custom_except_query cfg)) limit) = Inl e
            \<longrightarrow> snd ?r = [json_error_record (table_names_of cfg) e])
        \<and> (\<forall>rows e. sql_json s (json_query (the (custom_except_query cfg)) limit) = Inr rows
                 \<and> process_rows L (table_names_of cfg) rows [] = Inl e
            \<longrightarrow> snd ?r = [json_error_record (table_names_of cfg) e])"
    by (auto simp: extract_snd)
  have shape: "\<forall>e. json_error_record (table_names_of cfg) e
          = JObj [(''error'', JStr (''JSON processing error: '' @ e)),
                  (''__metadata'',
                   JObj [(''source_table'',
                          JStr (get_default (source_table cfg) ''UNKNOWN_SOURCE'')),
                         (''hub_table'', JStr (get_default (hub_table cfg) ''UNKNOWN_HUB'')),
                         (''satellite_table'',
                          JStr (get_default (cur_satellite_table cfg) ''UNKNOWN_SATELLITE'')),
                         (''bizview_table'',
                          JStr (get_default (bizview_table cfg) ''UNKNOWN_BIZVIEW''))])]"
    by (simp add: json_error_record_def error_metadata_def table_entries_def
        table_names_of_def)
  have count: "truthy (custom_except_query cfg) \<longrightarrow>
        (\<forall>e. sql_count s (''SELECT COUNT(*) FROM ('' @ the (custom_except_query cfg) @ '')'')
                = Inl e
            \<longrightarrow> fst ?r = 0
              \<and> (\<forall>rows recs.
                    sql_json s (json_query (the (custom_except_query cfg)) limit) = Inr rows
                    \<and> process_rows L (table_names_of cfg) rows [] = Inr recs
                    \<longrightarrow> snd ?r = (if 0 > limit
                                  then recs @ [note_record (table_names_of cfg) limit 0]
                                  else recs)))"
  proof (intro impI allI)
    fix e
    assume t: "truthy (custom_except_query cfg)"
      and c: "sql_count s (''SELECT COUNT(*) FROM ('' @ the (custom_except_query cfg) @ '')'')
                = Inl e"
    have zero: "fst ?r = 0"
      using t c by (rule extract_count_cases)
    show "fst ?r = 0
            \<and> (\<forall>rows recs.
                  sql_json s (json_query (the (custom_except_query cfg)) limit) = Inr rows
                  \<and> process_rows L (table_names_of cfg) rows [] = Inr recs
                  \<longrightarrow> snd ?r = (if 0 > limit
                                then recs @ [note_record (table_names_of cfg) limit 0]
                                else recs))"
      using zero extract_snd [OF t, of L s limit] by auto
  qed
  from dicts none fail shape count show ?thesis
    by (intro conjI)
qed

theorem extract_missing_records_handlers_witness:
  "truthy (custom_except_query entity_config)
   \<and> sql_json json_failing_session (json_query (the (custom_except_query entity_config)) 10)
       = Inl ''statement timed out''
   \<and> snd (extract_missing_records demo_lib json_failing_session entity_config 10)
       = [json_error_record (table_names_of entity_config) ''statement timed out'']
   \<and> sql_count count_failing_session
         (''SELECT COUNT(*) FROM ('' @ the (custom_except_query entity_config) @ '')'')
       = Inl ''statement timed out''
   \<and> sql_json count_failing_session (json_query (the (custom_except_query entity_config)) 10)
       = Inr []
   \<and> fst (extract_missing_records demo_lib count_failing_session entity_config 10) = 0
   \<and> snd (extract_missing_records demo_lib count_failing_session entity_config 10) = []"
proof -
  have h: "sql_json json_failing_session
             (json_query (the (custom_except_query entity_config)) 10)
             = Inl ''statement timed out''"
    by (simp add: json_failing_session_def)
  have c: "sql_count count_failing_session
             (''SELECT COUNT(*) FROM ('' @ the (custom_except_query entity_config) @ '')'')
             = Inl ''statement timed out''"
    by (simp add: count_failing_session_def)
  have j: "sql_json count_failing_session
             (json_query (the (custom_except_query entity_config)) 10) = Inr []"
    by (simp add: count_failing_session_def)
  have p: "process_rows demo_lib (table_names_of entity_config) [] [] = Inr []"
    by simp
  note th = extract_missing_records_handlers
    [of demo_lib json_failing_session entity_config 10]
  note th' = extract_missing_records_handlers
    [of demo_lib count_failing_session entity_config 10]
  have "snd (extract_missing_records demo_lib json_failing_session entity_config 10)
          = [json_error_record (table_names_of entity_config) ''statement timed out'']"
    using th entity_truthy h by blast
  moreover have "fst (extract_missing_records demo_lib count_failing_session entity_config 10)
                   = 0"
    using th' entity_truthy c by blast
  moreover have "snd (extract_missing_records demo_lib count_failing_session entity_config 10)
                   = (if (0::int) > 10
                      then [] @ [note_record (table_names_of entity_config) 10 0]
                      else [])"
    using th' entity_truthy c j p by blast
  ultimately show ?thesis
    using entity_truthy h c j by simp
qed

text \<open>
  C7 as it is stated fails for the count statement: when it fails, the count becomes 0
  and the function goes on; with no row from the \<^verbatim>\<open>TO_JSON\<close> statement the returned list
  is empty and holds no error dictionary.
\<close>

theorem extract_missing_records_handlers_counterexample:
  "truthy (custom_except_query entity_config)
   \<and> custom_except_query entity_config = Some entity_except_query
   \<and> sql_count count_failing_session
         (''SELECT COUNT(*) FROM ('' @ entity_except_query @ '')'')
       = Inl ''statement timed out''
   \<and> extract_missing_records demo_lib count_failing_session entity_config 10 = (0, [])"
  by (simp add: truthy_def entity_except_query_nonempty entity_config_fields
      extract_missing_records_def count_failing_session_def first_cell_def)



text \<open>
  C9, as the script has it. Every summary row has 18 cells that fit, position by
  position, the 18 columns of \<open>result_schema\<close> (TABLE_NAME through
  LOST_RECORDS_DETAILS); every frame \<open>main\<close> returns has that schema; and when building
  the frame from the rows fails, \<open>main\<close> builds the empty frame with the same schema
  instead, so that what it returns then is the empty frame, unless this second call
  raises as well.
\<close>

theorem fixed_schema:
  "map fst result_schema =
     [''TABLE_NAME'', ''SOURCE_TABLE'', ''HUB_TABLE'', ''SATELLITE_TABLE'', ''BIZVIEW_TABLE'',
      ''SOURCE_COUNT'', ''HUB_COUNT'', ''LINK_COUNT'', ''CURRENT_SATELLITE_COUNT'',
      ''BIZVIEW_COUNT'', ''SOURCE_TO_HUB_LOSS'', ''HUB_TO_LINK_LOSS'', ''HUB_TO_SAT_LOSS'',
      ''LINK_TO_SAT_LOSS'', ''SAT_TO_BIZVIEW_LOSS'', ''TOTAL_ROWS_LOST'', ''DELETED_RECORDS'',
      ''LOST_RECORDS_DETAILS'']
   \<and> (\<forall>row \<in> set (results_of cfgs L s).
         length row = 18 \<and> list_all2 conforms row (map snd result_schema))
   \<and> (\<forall>df. main_on cfgs L s = Inr df \<longrightarrow> df_schema df = result_schema)
   \<and> (\<forall>e. create_dataframe s (results_of cfgs L s) result_schema = Inl e
          \<longrightarrow> main_on cfgs L s = create_dataframe s [] result_schema
            \<and> (\<forall>df. main_on cfgs L s = Inr df
                  \<longrightarrow> df = \<lparr> df_schema = result_schema, df_rows = [] \<rparr>))"
proof -
  have "list_all2 conforms (summary_row L s cfg) (map snd result_schema)" for cfg
    by (simp add: summary_row_eq result_schema_def opt_str_def split: option.splits)
  then have "\<forall>row \<in> set (results_of cfgs L s).
               length row = 18 \<and> list_all2 conforms row (map snd result_schema)"
    by (auto simp: results_of_eq summary_row_length)
  moreover have "\<forall>df. main_on cfgs L s = Inr df \<longrightarrow> df_schema df = result_schema"
    by (simp add: main_on_rows)
  moreover have "\<forall>e. create_dataframe s (results_of cfgs L s) result_schema = Inl e
          \<longrightarrow> main_on cfgs L s = create_dataframe s [] result_schema
            \<and> (\<forall>df. main_on cfgs L s = Inr df
                  \<longrightarrow> df = \<lparr> df_schema = result_schema, df_rows = [] \<rparr>)"
    by (auto simp: main_on_eq results_of_eq create_dataframe_def split: option.splits)
  ultimately show ?thesis
    by (simp add: result_schema_def)
qed

theorem fixed_schema_witness:
  "create_dataframe rows_rejected_session
     (results_of table_configs demo_lib rows_rejected_session) result_schema
     = Inl ''invalid data''
   \<and> main_on table_configs demo_lib rows_rejected_session
       = Inr \<lparr> df_schema = result_schema, df_rows = [] \<rparr>
   \<and> length (summary_row demo_lib demo_session entity_config) = 18"
proof -
  have h: "create_dataframe rows_rejected_session
             (results_of table_configs demo_lib rows_rejected_session) result_schema
             = Inl ''invalid data''"
    by (simp add: create_dataframe_def rows_rejected_session_def results_of_eq table_configs_eq)
  have r: "summary_row demo_lib demo_session entity_config
             \<in> set (results_of table_configs demo_lib demo_session)"
    by (simp add: results_of_eq table_configs_eq)
  note th = fixed_schema [of table_configs demo_lib rows_rejected_session]
  note th' = fixed_schema [of table_configs demo_lib demo_session]
  have "main_on table_configs demo_lib rows_rejected_session
          = create_dataframe rows_rejected_session [] result_schema"
    using th h by blast
  moreover have "length (summary_row demo_lib demo_session entity_config) = 18"
    using th' r by blast
  ultimately show ?thesis
    using h by (simp add: create_dataframe_def rows_rejected_session_def)
qed

text \<open>
  C9 as it is stated fails when the second \<^verbatim>\<open>create_dataframe\<close> call raises too: the
  exception leaves \<open>main\<close> and no frame is returned.
\<close>

theorem fixed_schema_counterexample:
  "create_dataframe closed_session (results_of table_configs demo_lib closed_session)
     result_schema = Inl ''session closed''
   \<and> main demo_lib closed_session = Inl ''session closed''"
  by (simp add: main_def main_on_eq results_of_eq create_dataframe_def closed_session_def)

text \<open>
  C10. When the extraction succeeds, the returned list is the list of the entries made
  from the rows, one per row, followed by the NOTE dictionary if and only if the count of
  missing rows exceeds the limit; with at most \<open>limit\<close> rows from the warehouse it holds
  at most \<open>limit + 1\<close> entries. The NOTE dictionary has the key \<^verbatim>\<open>NOTE\<close> with the text
  \<^verbatim>\<open>Showing {limit} of {missing_count} total missing records\<close>, followed by the four
  table names.
\<close>

theorem note_iff_count_exceeds_limit:
  assumes "truthy (custom_except_query cfg)"
    and "sql_json s (json_query (the (custom_except_query cfg)) limit) = Inr rows"
    and "process_rows L (table_names_of cfg) rows [] = Inr recs"
  shows "length recs = length rows
       \<and> (fst (extract_missing_records L s cfg limit) > limit
            \<longrightarrow> snd (extract_missing_records L s cfg limit)
                  = recs @
                    [JObj [(''NOTE'',
                            JStr (''Showing '' @ str_int limit @ '' of ''
                                    @ str_int (fst (extract_missing_records L s cfg limit))
                                    @ '' total missing records'')),
                           (''source_table'',
                            JStr (get_default (source_table cfg) ''UNKNOWN_SOURCE'')),
                           (''hub_table'', JStr (get_default (hub_table cfg) ''UNKNOWN_HUB'')),
                           (''satellite_table'',
                            JStr (get_default (cur_satellite_table cfg) ''UNKNOWN_SATELLITE'')),
                           (''bizview_table'',
                            JStr (get_default (bizview_table cfg) ''UNKNOWN_BIZVIEW''))]])
       \<and> (\<not> fst (extract_missing_records L s cfg limit) > limit
            \<longrightarrow> snd (extract_missing_records L s cfg limit) = recs)
       \<and> (length rows \<le> nat limit
            \<longrightarrow> length (snd (extract_missing_records L s cfg limit)) \<le> nat limit + 1)"
proof -
  have len: "length recs = length rows"
    using assms(3) by (rule process_rows_nth)
  have "snd (extract_missing_records L s cfg limit)
          = (if fst (extract_missing_records L s cfg limit) > limit
             then recs @ [note_record (table_names_of cfg) limit
                            (fst (extract_missing_records L s cfg limit))]
             else recs)"
    using extract_snd [OF assms(1), of L s limit] assms(2,3)
    by (simp add: Let_def split: if_splits)
  with len show ?thesis
    by (simp add: note_record_text)
qed

theorem note_iff_count_exceeds_limit_witness:
  "truthy (custom_except_query entity_config)
   \<and> sql_json sample_session (json_query (the (custom_except_query entity_config)) 1)
       = Inr [Some demo_json]
   \<and> extract_missing_records demo_lib sample_session entity_config 1
       = (2, [JObj [(''ID'', JInt 1),
                    (''__metadata'',
                     JObj [(''source_table'', JStr ''SOURCE_DB.SOURCE_SCHEMA.ENTITY_TABLE''),
                           (''hub_table'', JStr ''DV_DB.RAWVAULT.H_ENTITY''),
                           (''satellite_table'',
                            JStr ''DV_DB.RAWVAULT.S_ENTITY_LROC_INFO_CURRENT''),
                           (''bizview_table'', JStr ''DV_DB.BIZVIEWS.FACT_ENTITY''),
                           (''record_type'', JStr ''missing'')]),
                    (''__record_separator'', JBool True)],
              JObj [(''NOTE'', JStr ''Showing 1 of 2 total missing records''),
                    (''source_table'', JStr ''SOURCE_DB.SOURCE_SCHEMA.ENTITY_TABLE''),
                    (''hub_table'', JStr ''DV_DB.RAWVAULT.H_ENTITY''),
                    (''satellite_table'', JStr ''DV_DB.RAWVAULT.S_ENTITY_LROC_INFO_CURRENT''),
                    (''bizview_table'', JStr ''DV_DB.BIZVIEWS.FACT_ENTITY'')]])"
proof -
  note th = note_iff_count_exceeds_limit [OF entity_truthy sample_json demo_rows]
  have digits: "str_int 1 = ''1''" "str_int 2 = ''2''"
    by (simp_all add: str_int_def str_nat.simps digit_char_def)
  have "snd (extract_missing_records demo_lib sample_session entity_config 1)
          = [JObj [(''ID'', JInt 1),
                   (''__metadata'', missing_metadata (table_names_of entity_config)),
                   (''__record_separator'', JBool True)],
             JObj [(''NOTE'', JStr ''Showing 1 of 2 total missing records''),
                   (''source_table'', JStr ''SOURCE_DB.SOURCE_SCHEMA.ENTITY_TABLE''),
                   (''hub_table'', JStr ''DV_DB.RAWVAULT.H_ENTITY''),
                   (''satellite_table'', JStr ''DV_DB.RAWVAULT.S_ENTITY_LROC_INFO_CURRENT''),
                   (''bizview_table'', JStr ''DV_DB.BIZVIEWS.FACT_ENTITY'')]]"
    using th by (simp add: sample_count digits entity_config_fields get_default_def)
  then show ?thesis
    using entity_truthy sample_json sample_count [of demo_lib]
    by (simp add: prod_eq_iff missing_metadata_def table_entries_def table_names_of_def
        entity_config_fields get_default_def)
qed

end
